theory Spec2Isabelle
  imports Main "HOL-Library.List_Lexorder" "HOL-Library.Sublist" "HOL-Library.AList"
begin

section \<open>Python values used by prepare_plugin_build.py\<close>

text \<open>
  A Python \<open>str\<close> is a sequence of Unicode code points. It is modelled as a list of
  natural numbers, one per code point; the order on such lists (lexicographic, by code
  point) is the order Python's \<open>sorted\<close> uses on \<open>str\<close>. The literals of the script
  are ASCII and are written through \<open>str\<close>.
\<close>

type_synonym pystr = "nat list"

definition str :: "string \<Rightarrow> pystr" where
  "str s = map of_char s"

abbreviation LF :: nat where "LF \<equiv> 10"
abbreviation CR :: nat where "CR \<equiv> 13"

text \<open>
  \<open>str.isspace\<close> for one code point: the ASCII white space (tab, line feed, vertical
  tab, form feed, carriage return, the four separators 0x1C..0x1F, space) and the Unicode
  white space (U+0085, U+00A0, U+1680, U+2000..U+200A, U+2028, U+2029, U+202F, U+205F,
  U+3000). \<open>line.strip()\<close> removes such characters from both ends;
  \<open>s.startswith(p)\<close> tests for a prefix.
\<close>

definition isspace :: "nat \<Rightarrow> bool" where
  "isspace c \<longleftrightarrow>
     (9 \<le> c \<and> c \<le> 13) \<or> (28 \<le> c \<and> c \<le> 32) \<or> c = 133 \<or> c = 160 \<or> c = 5760 \<or>
     (8192 \<le> c \<and> c \<le> 8202) \<or> c = 8232 \<or> c = 8233 \<or> c = 8239 \<or> c = 8287 \<or>
     c = 12288"

definition strip :: "pystr \<Rightarrow> pystr" where
  "strip s = rev (dropWhile isspace (rev (dropWhile isspace s)))"

definition startswith :: "pystr \<Rightarrow> pystr \<Rightarrow> bool" where
  "startswith s p = prefix p s"

text \<open>
  The exceptions the script can raise on the inputs modelled here, and sequencing:
  the first exception ends the run.
\<close>

datatype py_error =
  FileNotFoundError | TomlDecodeError | AttributeError | TypeError | KeyError

definition and_then :: "py_error + 'a \<Rightarrow> ('a \<Rightarrow> py_error + 'b) \<Rightarrow> py_error + 'b" where
  "and_then r f = (case r of Inl e \<Rightarrow> Inl e | Inr x \<Rightarrow> f x)"

text \<open>
  What \<open>toml.load\<close> returns: strings, integers, booleans, lists and dicts (a dict keeps
  its keys in insertion order, so it is an association list). Floats and dates behave
  like \<open>TInt\<close> in every operation this script applies (hashable, not iterable, no
  order against a \<open>str\<close>) and have no constructor of their own.
\<close>

datatype toml =
  TStr pystr | TInt int | TBool bool | TArr "toml list" | TTab "(pystr \<times> toml) list"

definition is_str :: "toml \<Rightarrow> bool" where
  "is_str v = (case v of TStr s \<Rightarrow> True | _ \<Rightarrow> False)"

definition the_str :: "toml \<Rightarrow> pystr" where
  "the_str v = (case v of TStr s \<Rightarrow> s | _ \<Rightarrow> [])"

definition hashable :: "toml \<Rightarrow> bool" where
  "hashable v = (case v of TArr xs \<Rightarrow> False | TTab kvs \<Rightarrow> False | _ \<Rightarrow> True)"

text \<open>\<open>d.get(k, default)\<close> on a dict.\<close>

definition dict_get :: "(pystr \<times> toml) list \<Rightarrow> pystr \<Rightarrow> toml \<Rightarrow> toml" where
  "dict_get d k dflt = (case map_of d k of None \<Rightarrow> dflt | Some v \<Rightarrow> v)"

text \<open>
  \<open>v.get(k, default)\<close> on an arbitrary value: only a dict has the method, any
  other value raises AttributeError.
\<close>

definition get_method :: "toml \<Rightarrow> pystr \<Rightarrow> toml \<Rightarrow> py_error + toml" where
  "get_method v k dflt = (case v of TTab d \<Rightarrow> Inr (dict_get d k dflt) | _ \<Rightarrow> Inl AttributeError)"

text \<open>
  Iterating a value: a list yields its elements, a dict its keys, a string its
  characters (each a string of length one); a number or boolean is not iterable.
\<close>

definition py_iter :: "toml \<Rightarrow> py_error + toml list" where
  "py_iter v =
     (case v of
        TArr xs \<Rightarrow> Inr xs
      | TTab kvs \<Rightarrow> Inr (map (\<lambda>kv. TStr (fst kv)) kvs)
      | TStr s \<Rightarrow> Inr (map (\<lambda>c. TStr [c]) s)
      | _ \<Rightarrow> Inl TypeError)"

text \<open>\<open>set(v)\<close>: every element must be hashable.\<close>

definition py_set :: "toml \<Rightarrow> py_error + toml set" where
  "py_set v =
     and_then (py_iter v)
       (\<lambda>xs. if list_all hashable xs then Inr (set xs) else Inl TypeError)"

text \<open>
  \<open>sorted(members)\<close> as the script calls it, on a set that holds the two literal paths:
  when every element is a string the result is the ascending list of the elements; any
  other element is compared with a string at some point of the sort, and that comparison
  raises TypeError.
\<close>

definition sorted_members :: "toml set \<Rightarrow> py_error + toml list" where
  "sorted_members members =
     (if \<exists>x\<in>members. \<not> is_str x then Inl TypeError
      else Inr (map TStr (sorted_list_of_set (the_str ` members))))"

text \<open>
  \<open>cargo_data["workspace"]["members"] = v\<close>: the subscript \<open>cargo_data["workspace"]\<close>
  raises KeyError when the key is absent; the item assignment needs a dict.
\<close>

definition set_workspace_members ::
    "(pystr \<times> toml) list \<Rightarrow> toml \<Rightarrow> py_error + (pystr \<times> toml) list" where
  "set_workspace_members cargo_data v =
     (case map_of cargo_data (str ''workspace'') of
        None \<Rightarrow> Inl KeyError
      | Some (TTab ws) \<Rightarrow>
          Inr (AList.update (str ''workspace'')
                 (TTab (AList.update (str ''members'') v ws)) cargo_data)
      | Some _ \<Rightarrow> Inl TypeError)"

section \<open>Text files\<close>

text \<open>
  \<open>open(path)\<close> opens a file in text mode with universal newlines: on reading, the
  terminators \<open>\r\n\<close> and \<open>\r\<close> are translated to \<open>\n\<close>.
\<close>

fun universal_newlines :: "pystr \<Rightarrow> pystr" where
  "universal_newlines [] = []"
| "universal_newlines [c] = [if c = CR then LF else c]"
| "universal_newlines (c # d # cs) =
     (if c = CR \<and> d = LF then LF # universal_newlines cs
      else if c = CR then LF # universal_newlines (d # cs)
      else c # universal_newlines (d # cs))"

text \<open>
  \<open>readline\<close> returns the text up to and including the next \<open>\n\<close> (or the rest of
  the text when there is none) and what is left; \<open>for line in f\<close> reads lines until the
  text is exhausted.
\<close>

definition readline :: "pystr \<Rightarrow> pystr \<times> pystr" where
  "readline s =
     (takeWhile (\<lambda>c. c \<noteq> LF) s @ take 1 (dropWhile (\<lambda>c. c \<noteq> LF) s),
      drop 1 (dropWhile (\<lambda>c. c \<noteq> LF) s))"

function file_lines :: "pystr \<Rightarrow> pystr list" where
  "file_lines s =
     (if s = [] then [] else fst (readline s) # file_lines (snd (readline s)))"
  by pat_completeness auto
termination
proof (relation "measure length")
  show "wf (measure length)" by simp
next
  fix s :: pystr
  assume "s \<noteq> []"
  moreover have "length (dropWhile (\<lambda>c. c \<noteq> LF) s) \<le> length s"
    by (rule length_dropWhile_le)
  ultimately have "length (drop 1 (dropWhile (\<lambda>c. c \<noteq> LF) s)) < length s"
    by (cases s) auto
  then show "(snd (readline s), s) \<in> measure length"
    by (simp add: readline_def)
qed

definition read_lines :: "pystr \<Rightarrow> pystr list" where
  "read_lines content = file_lines (universal_newlines content)"

text \<open>
  \<open>f.writelines(lines)\<close> on a file opened with \<open>"w"\<close> replaces the content by the
  concatenation of the lines. On a POSIX system (the script starts with
  \<open>#!/usr/bin/env python3\<close>) \<open>\n\<close> is written as it is.
\<close>

definition writelines :: "pystr list \<Rightarrow> pystr" where
  "writelines lines = concat lines"

text \<open>
  The block the script repeats for each of its three text files: read the file line by
  line, append to \<open>lines\<close> either a replacement or the line itself, and write
  \<open>lines\<close> back. \<open>f\<close> is the body of the loop, from the line read to the line
  appended.
\<close>

definition patch_text :: "(pystr \<Rightarrow> pystr) \<Rightarrow> pystr \<Rightarrow> pystr" where
  "patch_text f content = writelines (map f (read_lines content))"

declare file_lines.simps [simp del]

section \<open>The script\<close>

text \<open>
  The files the script touches, all under the directory \<open>cloned-router\<close>:
  \<open>Cargo.toml\<close> (absent, present but rejected by \<open>toml.load\<close>, or present with the
  dict \<open>toml.load\<close> returns for it), and the three text files \<open>rust-toolchain.toml\<close>,
  \<open>apollo-router/config.toml\<close> and \<open>dockerfiles/diy/dockerfiles/Dockerfile.repo\<close>
  (absent, or present with their decoded content). The field \<open>cargo_toml\<close> says what
  \<open>toml.load\<close> makes of the file. \<open>stdout\<close> collects the lines printed.
  Faults of the file system itself (permissions, a directory in place of a file,
  undecodable bytes) are not modelled.
\<close>

datatype cargo_file = Absent | Malformed | Manifest "(pystr \<times> toml) list"

record state =
  cargo_toml :: cargo_file
  rust_toolchain :: "pystr option"
  config_toml :: "pystr option"
  dockerfile :: "pystr option"
  stdout :: "pystr list"

text \<open>\<open>RUST_VERSION = os.environ.get("RUST_VERSION", "latest")\<close>\<close>

definition RUST_VERSION :: "(pystr \<rightharpoonup> pystr) \<Rightarrow> pystr" where
  "RUST_VERSION environ =
     (case environ (str ''RUST_VERSION'') of None \<Rightarrow> str ''latest'' | Some v \<Rightarrow> v)"

text \<open>The check mark U+2705 that starts every printed line.\<close>

abbreviation check_mark :: pystr where "check_mark \<equiv> [9989]"

subsection \<open>Update Cargo.toml workspace members\<close>

text \<open>
  \<^verbatim>\<open>cargo_data = toml.load(cargo_toml_path)\<close>
\<close>

definition toml_load :: "cargo_file \<Rightarrow> py_error + (pystr \<times> toml) list" where
  "toml_load f =
     (case f of
        Absent \<Rightarrow> Inl FileNotFoundError
      | Malformed \<Rightarrow> Inl TomlDecodeError
      | Manifest cargo_data \<Rightarrow> Inr cargo_data)"

text \<open>
  \<^verbatim>\<open>members = set(cargo_data.get("workspace", {}).get("members", []))\<close>
  \<^verbatim>\<open>members.add("custom-plugin")\<close>
  \<^verbatim>\<open>members.add("custom-plugin/router-with-plugin")\<close>
\<close>

definition members :: "(pystr \<times> toml) list \<Rightarrow> py_error + toml set" where
  "members cargo_data =
     and_then (get_method (dict_get cargo_data (str ''workspace'') (TTab []))
                 (str ''members'') (TArr []))
       (\<lambda>ms. and_then (py_set ms)
          (\<lambda>m. Inr (insert (TStr (str ''custom-plugin/router-with-plugin''))
                       (insert (TStr (str ''custom-plugin'')) m))))"

text \<open>
  \<^verbatim>\<open>cargo_data["workspace"]["members"] = sorted(members)\<close>: with the two lines
  before, the way from the dict that \<open>toml.load\<close> returned to the dict as it stands when
  it is dumped.
\<close>

definition patched_manifest :: "(pystr \<times> toml) list \<Rightarrow> py_error + (pystr \<times> toml) list" where
  "patched_manifest cargo_data =
     and_then (members cargo_data)
       (\<lambda>m. and_then (sorted_members m)
          (\<lambda>sorted_ms. set_workspace_members cargo_data (TArr sorted_ms)))"

text \<open>
  \<^verbatim>\<open>with open(cargo_toml_path, "w") as f: toml.dump(cargo_data, f)\<close> and the print.
  The \<open>toml\<close> package is not part of the repository. What the file is once
  \<open>toml.dump\<close> has written a dict over it (a manifest that \<open>toml.load\<close> parses to
  some dict, or one that it rejects) is the parameter \<open>toml_dump\<close>. Nothing is assumed
  of it: the file need not parse back to the dict that was dumped.
\<close>

definition update_cargo_toml ::
    "((pystr \<times> toml) list \<Rightarrow> cargo_file) \<Rightarrow> state \<Rightarrow> py_error + state" where
  "update_cargo_toml toml_dump st =
     and_then (toml_load (cargo_toml st))
       (\<lambda>cargo_data. and_then (patched_manifest cargo_data)
          (\<lambda>cargo_data'.
             Inr (st\<lparr>cargo_toml := toml_dump cargo_data',
                     stdout := stdout st @
                       [check_mark @ str '' Added custom-plugin and router-with-plugin to workspace members'']\<rparr>)))"

subsection \<open>Patch rust-toolchain.toml\<close>

definition toolchain_line :: "pystr \<Rightarrow> pystr \<Rightarrow> pystr" where
  "toolchain_line version line =
     (if startswith (strip line) (str ''channel'')
      then str ''channel = \"'' @ version @ str ''\"'' @ [LF]
      else line)"

definition patch_rust_toolchain :: "pystr \<Rightarrow> state \<Rightarrow> py_error + state" where
  "patch_rust_toolchain version st =
     (case rust_toolchain st of
        None \<Rightarrow> Inr st
      | Some content \<Rightarrow>
          Inr (st\<lparr>rust_toolchain :=
                    Some (patch_text (toolchain_line version) content),
                  stdout := stdout st @
                    [check_mark @ str '' Patched rust-toolchain.toml to use rust:'' @ version]\<rparr>))"

subsection \<open>Patch apollo-router/config.toml\<close>

definition config_line :: "pystr \<Rightarrow> pystr \<Rightarrow> pystr" where
  "config_line version line =
     (if startswith (strip line) (str ''rust ='')
      then str ''rust = \"'' @ version @ str ''\"'' @ [LF]
      else line)"

definition patch_config_toml :: "pystr \<Rightarrow> state \<Rightarrow> py_error + state" where
  "patch_config_toml version st =
     (case config_toml st of
        None \<Rightarrow> Inr st
      | Some content \<Rightarrow>
          Inr (st\<lparr>config_toml :=
                    Some (patch_text (config_line version) content),
                  stdout := stdout st @
                    [check_mark @ str '' Patched apollo-router/config.toml to use rust:'' @ version]\<rparr>))"

subsection \<open>Patch Dockerfile.repo\<close>

definition dockerfile_line :: "pystr \<Rightarrow> pystr \<Rightarrow> pystr" where
  "dockerfile_line version line =
     (if startswith (strip line) (str ''FROM rust:'')
      then str ''FROM rust:'' @ version @ str '' as build'' @ [LF]
      else if startswith (strip line) (str ''RUN cargo install --path'')
      then str ''RUN cargo install --path custom-plugin/router-with-plugin'' @ [LF]
      else line)"

definition patch_dockerfile :: "pystr \<Rightarrow> state \<Rightarrow> py_error + state" where
  "patch_dockerfile version st =
     (case dockerfile st of
        None \<Rightarrow> Inr st
      | Some content \<Rightarrow>
          Inr (st\<lparr>dockerfile :=
                    Some (patch_text (dockerfile_line version) content),
                  stdout := stdout st @
                    [check_mark @ str '' Patched Dockerfile.repo to use rust:'' @ version]\<rparr>))"

subsection \<open>The whole run\<close>

definition prepare_plugin_build ::
    "((pystr \<times> toml) list \<Rightarrow> cargo_file) \<Rightarrow> (pystr \<rightharpoonup> pystr) \<Rightarrow> state \<Rightarrow> py_error + state" where
  "prepare_plugin_build toml_dump environ st =
     and_then (update_cargo_toml toml_dump st)
       (\<lambda>st1. and_then (patch_rust_toolchain (RUST_VERSION environ) st1)
          (\<lambda>st2. and_then (patch_config_toml (RUST_VERSION environ) st2)
             (\<lambda>st3. patch_dockerfile (RUST_VERSION environ) st3)))"

text \<open>
  The members entry of a dict, and the members entry that \<open>toml.load\<close> finds in the
  manifest of a state, when there is one.
\<close>

definition members_entry :: "(pystr \<times> toml) list \<Rightarrow> toml option" where
  "members_entry cargo_data =
     (case map_of cargo_data (str ''workspace'') of
        Some (TTab ws) \<Rightarrow> map_of ws (str ''members'')
      | _ \<Rightarrow> None)"

definition workspace_members :: "state \<Rightarrow> toml option" where
  "workspace_members st =
     (case cargo_toml st of
        Manifest cargo_data \<Rightarrow> members_entry cargo_data
      | _ \<Rightarrow> None)"

section \<open>Auxiliary notions for the properties\<close>

text \<open>
  The shape of what \<open>for line in f\<close> yields: no line is empty, a line feed stands only
  at the end of a line, and every line but the last ends with one.
\<close>

fun proper_lines :: "pystr list \<Rightarrow> bool" where
  "proper_lines [] = True"
| "proper_lines (l # ls) =
     (l \<noteq> [] \<and> LF \<notin> set (butlast l) \<and> (ls = [] \<or> last l = LF) \<and> proper_lines ls)"

text \<open>
  A line that can replace any line of a file without changing how the file splits into
  lines: it ends with its only line feed and has no carriage return.
\<close>

definition replacement :: "pystr \<Rightarrow> bool" where
  "replacement r \<longleftrightarrow> r \<noteq> [] \<and> last r = LF \<and> LF \<notin> set (butlast r) \<and> CR \<notin> set r"


section \<open>Example inputs\<close>

text \<open>
  A toolchain file with an indented channel line that ends in \<open>\r\n\<close> and a last line
  without terminator, a config file whose last line is indented by a tab, a Dockerfile
  with two stages, and a manifest that lists a member twice.
\<close>

definition example_toolchain :: pystr where
  "example_toolchain =
     str ''[toolchain]'' @ [LF] @ str ''  channel = \"1.70\"'' @ [CR, LF] @ str ''profile = \"default\"''"

definition example_config :: pystr where
  "example_config = str ''[versions]'' @ [LF] @ [9] @ str ''rust = \"1.70\"''"

definition example_dockerfile :: pystr where
  "example_dockerfile =
     str ''FROM rust:1.70 as build'' @ [LF] @ str ''WORKDIR /usr/src/router'' @ [LF] @
     str ''  RUN cargo install --path apollo-router'' @ [CR, LF] @ str ''FROM debian'' @ [LF]"

definition example_manifest :: "(pystr \<times> toml) list" where
  "example_manifest =
     [(str ''workspace'',
       TTab [(str ''members'',
              TArr [TStr (str ''xtask''), TStr (str ''apollo-router''), TStr (str ''xtask'')])])]"

definition example_state :: state where
  "example_state =
     \<lparr>cargo_toml = Manifest example_manifest,
      rust_toolchain = Some example_toolchain,
      config_toml = Some example_config,
      dockerfile = Some example_dockerfile,
      stdout = []\<rparr>"

text \<open>
  A manifest of a single package, with no workspace table, and a manifest whose
  workspace table has no members entry; neither comes with the three optional files.
\<close>

definition package_only_state :: state where
  "package_only_state =
     \<lparr>cargo_toml = Manifest [(str ''package'', TTab [(str ''name'', TStr (str ''router''))])],
      rust_toolchain = None, config_toml = None, dockerfile = None, stdout = []\<rparr>"

definition bare_workspace_state :: state where
  "bare_workspace_state =
     \<lparr>cargo_toml = Manifest [(str ''workspace'', TTab [(str ''resolver'', TStr (str ''2''))])],
      rust_toolchain = None, config_toml = None, dockerfile = None, stdout = []\<rparr>"




abbreviation plugin_path :: pystr where "plugin_path \<equiv> str ''custom-plugin''"
abbreviation router_path :: pystr where "router_path \<equiv> str ''custom-plugin/router-with-plugin''"

section \<open>Reading and writing lines\<close>

lemma file_lines_Nil [simp]: "file_lines [] = []"
  by (simp add: file_lines.simps)

lemma file_lines_terminated:
  assumes "LF \<notin> set b"
  shows "file_lines (b @ LF # t) = (b @ [LF]) # file_lines t"
proof -
  from assms have "\<forall>c\<in>set b. c \<noteq> LF" by auto
  then have "takeWhile (\<lambda>c. c \<noteq> LF) (b @ LF # t) = b"
    and "dropWhile (\<lambda>c. c \<noteq> LF) (b @ LF # t) = LF # t"
    by (simp_all add: takeWhile_append2 dropWhile_append2)
  then have "readline (b @ LF # t) = (b @ [LF], t)"
    by (simp add: readline_def)
  then show ?thesis
    by (subst file_lines.simps) simp
qed

lemma file_lines_unterminated:
  assumes "LF \<notin> set b" and "b \<noteq> []"
  shows "file_lines b = [b]"
proof -
  from assms(1) have all: "\<forall>c\<in>set b. c \<noteq> LF" by auto
  have t: "takeWhile (\<lambda>c. c \<noteq> LF) b = b"
    using all by (rule takeWhile_eq_all_conv [THEN iffD2])
  have d: "dropWhile (\<lambda>c. c \<noteq> LF) b = []"
    using all by (rule dropWhile_eq_Nil_conv [THEN iffD2])
  have "readline b = (b, [])"
    unfolding readline_def t d by simp
  with assms(2) show ?thesis
    by (subst file_lines.simps) simp
qed

lemma proper_file_lines: "proper_lines (file_lines s)"
proof (induction s rule: length_induct)
  case (1 s)
  show ?case
  proof (cases "LF \<in> set s")
    case True
    then obtain b t where s: "s = b @ LF # t" and b: "LF \<notin> set b"
      by (auto dest: split_list_first)
    from s have "length t < length s" by simp
    with 1 have "proper_lines (file_lines t)" by blast
    with s b show ?thesis
      by (simp add: file_lines_terminated)
  next
    case False
    then show ?thesis
      by (cases "s = []") (auto simp: file_lines_unterminated dest: in_set_butlastD)
  qed
qed

lemma concat_file_lines: "concat (file_lines s) = s"
proof (induction s rule: length_induct)
  case (1 s)
  show ?case
  proof (cases "LF \<in> set s")
    case True
    then obtain b t where s: "s = b @ LF # t" and b: "LF \<notin> set b"
      by (auto dest: split_list_first)
    from s have "length t < length s" by simp
    with 1 have "concat (file_lines t) = t" by blast
    with s b show ?thesis
      by (simp add: file_lines_terminated)
  next
    case False
    then show ?thesis
      by (cases "s = []") (simp_all add: file_lines_unterminated)
  qed
qed

lemma file_lines_concat:
  "proper_lines ls \<Longrightarrow> file_lines (concat ls) = ls"
proof (induction ls)
  case Nil
  then show ?case by simp
next
  case (Cons l ls)
  then have l: "l \<noteq> []" "LF \<notin> set (butlast l)" and rest: "file_lines (concat ls) = ls"
    by simp_all
  from l(1) obtain b c where bc: "l = b @ [c]"
    by (metis append_butlast_last_id)
  with l(2) have b: "LF \<notin> set b" by simp
  show ?case
  proof (cases "c = LF")
    case True
    with bc have "concat (l # ls) = b @ LF # concat ls" by simp
    with file_lines_terminated [OF b, of "concat ls"] rest bc True
    show ?thesis by simp
  next
    case False
    with Cons.prems bc have "ls = []" by simp
    from False b bc have "LF \<notin> set l" by simp
    with l(1) \<open>ls = []\<close> show ?thesis
      by (simp add: file_lines_unterminated)
  qed
qed

lemma universal_newlines_no_CR: "CR \<notin> set (universal_newlines s)"
  by (induction s rule: universal_newlines.induct) auto

lemma universal_newlines_id: "CR \<notin> set s \<Longrightarrow> universal_newlines s = s"
  by (induction s rule: universal_newlines.induct) auto

lemma read_lines_no_CR: "l \<in> set (read_lines content) \<Longrightarrow> CR \<notin> set l"
proof -
  assume "l \<in> set (read_lines content)"
  then have "set l \<subseteq> set (concat (file_lines (universal_newlines content)))"
    by (auto simp: read_lines_def)
  then show ?thesis
    using universal_newlines_no_CR [of content] by (auto simp: concat_file_lines)
qed

lemma proper_read_lines: "proper_lines (read_lines content)"
  by (simp add: read_lines_def proper_file_lines)

lemma proper_map:
  assumes "\<And>l. f l = l \<or> replacement (f l)"
  shows "proper_lines ls \<Longrightarrow> proper_lines (map f ls)"
proof (induction ls)
  case Nil
  then show ?case by simp
next
  case (Cons l ls)
  from assms [of l] Cons show ?case
    by (auto simp: replacement_def)
qed

lemma read_lines_writelines:
  "CR \<notin> set (concat ls) \<Longrightarrow> proper_lines ls \<Longrightarrow> read_lines (writelines ls) = ls"
  by (simp add: read_lines_def writelines_def universal_newlines_id file_lines_concat)

lemma reread:
  assumes f: "\<And>l. f l = l \<or> replacement (f l)"
  shows "read_lines (writelines (map f (read_lines content))) = map f (read_lines content)"
proof -
  let ?ls = "map f (read_lines content)"
  have "CR \<notin> set l" if "l \<in> set ?ls" for l
  proof -
    from that obtain l0 where l0: "l0 \<in> set (read_lines content)" and l: "l = f l0"
      by auto
    from f [of l0] show ?thesis
      using l l0 by (auto simp: replacement_def dest: read_lines_no_CR)
  qed
  then have "CR \<notin> set (concat ?ls)" by auto
  moreover have "proper_lines ?ls"
    using f proper_read_lines by (rule proper_map)
  ultimately show ?thesis
    by (rule read_lines_writelines)
qed

lemma read_lines_patch_text:
  "(\<And>l. f l = l \<or> replacement (f l)) \<Longrightarrow>
     read_lines (patch_text f content) = map f (read_lines content)"
  unfolding patch_text_def by (rule reread)












section \<open>The replacement lines\<close>

lemma replacement_intro:
  "LF \<notin> set b \<Longrightarrow> CR \<notin> set b \<Longrightarrow> replacement (b @ [LF])"
  by (simp add: replacement_def)

lemma toolchain_line_cases:
  assumes "LF \<notin> set version" and "CR \<notin> set version"
  shows "toolchain_line version l = l \<or> replacement (toolchain_line version l)"
proof -
  have "replacement ((str ''channel = \"'' @ version @ str ''\"'') @ [LF])"
    using assms by (intro replacement_intro) (simp_all add: str_def)
  then show ?thesis by (simp add: toolchain_line_def)
qed

lemma config_line_cases:
  assumes "LF \<notin> set version" and "CR \<notin> set version"
  shows "config_line version l = l \<or> replacement (config_line version l)"
proof -
  have "replacement ((str ''rust = \"'' @ version @ str ''\"'') @ [LF])"
    using assms by (intro replacement_intro) (simp_all add: str_def)
  then show ?thesis by (simp add: config_line_def)
qed

lemma dockerfile_line_cases:
  assumes "LF \<notin> set version" and "CR \<notin> set version"
  shows "dockerfile_line version l = l \<or> replacement (dockerfile_line version l)"
proof -
  have "replacement ((str ''FROM rust:'' @ version @ str '' as build'') @ [LF])"
    using assms by (intro replacement_intro) (simp_all add: str_def)
  moreover have "replacement (str ''RUN cargo install --path custom-plugin/router-with-plugin'' @ [LF])"
    by (intro replacement_intro) (simp_all add: str_def)
  ultimately show ?thesis by (simp add: dockerfile_line_def)
qed

lemma version_1_75: "LF \<notin> set (str ''1.75'')" "CR \<notin> set (str ''1.75'')"
  by (simp_all add: str_def)

section \<open>The three line-oriented files under the version token 1.75\<close>

text \<open>
  Claim C6. With the version token \<open>1.75\<close>, every line of the toolchain file whose
  stripped content starts with \<open>channel\<close> is, in the patched file, exactly the line
  \<open>channel = "1.75"\<close> followed by one line feed; the patched file has as many lines
  as the original.
\<close>

theorem toolchain_channel_line:
  assumes "rust_toolchain st = Some content"
    and "i < length (read_lines content)"
    and "startswith (strip (read_lines content ! i)) (str ''channel'')"
  shows "\<exists>st' out. patch_rust_toolchain (str ''1.75'') st = Inr st' \<and>
           rust_toolchain st' = Some out \<and>
           length (read_lines out) = length (read_lines content) \<and>
           read_lines out ! i = str ''channel = \"1.75\"'' @ [LF]"
proof -
  let ?out = "patch_text (toolchain_line (str ''1.75'')) content"
  have "read_lines ?out = map (toolchain_line (str ''1.75'')) (read_lines content)"
    unfolding patch_text_def by (rule reread) (rule toolchain_line_cases [OF version_1_75])
  moreover have "toolchain_line (str ''1.75'') (read_lines content ! i) = str ''channel = \"1.75\"'' @ [LF]"
    using assms(3) by (simp add: toolchain_line_def str_def)
  ultimately have "length (read_lines ?out) = length (read_lines content)"
    and "read_lines ?out ! i = str ''channel = \"1.75\"'' @ [LF]"
    using assms(2) by simp_all
  then show ?thesis
    using assms(1) by (simp add: patch_rust_toolchain_def)
qed

text \<open>Evaluation of the line functions on the example files.\<close>

lemmas eval_text = read_lines_def str_def file_lines.simps readline_def
lemmas eval_match = startswith_def strip_def isspace_def str_def

lemma example_toolchain_lines:
  "read_lines example_toolchain =
     [str ''[toolchain]'' @ [LF], str ''  channel = \"1.70\"'' @ [LF], str ''profile = \"default\"'']"
  by (simp add: example_toolchain_def eval_text)

theorem toolchain_channel_line_witness:
  "rust_toolchain example_state = Some example_toolchain \<and>
   1 < length (read_lines example_toolchain) \<and>
   read_lines example_toolchain ! 1 = str ''  channel = \"1.70\"'' @ [LF] \<and>
   startswith (strip (read_lines example_toolchain ! 1)) (str ''channel'') \<and>
   (\<exists>st' out. patch_rust_toolchain (str ''1.75'') example_state = Inr st' \<and>
      rust_toolchain st' = Some out \<and>
      length (read_lines out) = length (read_lines example_toolchain) \<and>
      read_lines out ! 1 = str ''channel = \"1.75\"'' @ [LF])"
proof -
  have a: "rust_toolchain example_state = Some example_toolchain"
    by (simp add: example_state_def)
  have b: "1 < length (read_lines example_toolchain)"
    by (simp add: example_toolchain_lines)
  have d: "read_lines example_toolchain ! 1 = str ''  channel = \"1.70\"'' @ [LF]"
    by (simp add: example_toolchain_lines)
  have c: "startswith (strip (read_lines example_toolchain ! 1)) (str ''channel'')"
    unfolding d by (simp add: eval_match)
  from toolchain_channel_line [OF a b c] a b c d show ?thesis by blast
qed

text \<open>
  Claim C7. With the version token \<open>1.75\<close>, every line of the config file whose
  stripped content starts with \<open>rust =\<close> is, in the patched file, exactly the line
  \<open>rust = "1.75"\<close> followed by one line feed.
\<close>

theorem config_rust_line:
  assumes "config_toml st = Some content"
    and "i < length (read_lines content)"
    and "startswith (strip (read_lines content ! i)) (str ''rust ='')"
  shows "\<exists>st' out. patch_config_toml (str ''1.75'') st = Inr st' \<and>
           config_toml st' = Some out \<and>
           length (read_lines out) = length (read_lines content) \<and>
           read_lines out ! i = str ''rust = \"1.75\"'' @ [LF]"
proof -
  let ?out = "patch_text (config_line (str ''1.75'')) content"
  have "read_lines ?out = map (config_line (str ''1.75'')) (read_lines content)"
    unfolding patch_text_def by (rule reread) (rule config_line_cases [OF version_1_75])
  moreover have "config_line (str ''1.75'') (read_lines content ! i) = str ''rust = \"1.75\"'' @ [LF]"
    using assms(3) by (simp add: config_line_def str_def)
  ultimately have "length (read_lines ?out) = length (read_lines content)"
    and "read_lines ?out ! i = str ''rust = \"1.75\"'' @ [LF]"
    using assms(2) by simp_all
  then show ?thesis
    using assms(1) by (simp add: patch_config_toml_def)
qed

lemma example_config_lines:
  "read_lines example_config = [str ''[versions]'' @ [LF], [9] @ str ''rust = \"1.70\"'']"
  by (simp add: example_config_def eval_text)

theorem config_rust_line_witness:
  "config_toml example_state = Some example_config \<and>
   1 < length (read_lines example_config) \<and>
   read_lines example_config ! 1 = [9] @ str ''rust = \"1.70\"'' \<and>
   startswith (strip (read_lines example_config ! 1)) (str ''rust ='') \<and>
   (\<exists>st' out. patch_config_toml (str ''1.75'') example_state = Inr st' \<and>
      config_toml st' = Some out \<and>
      length (read_lines out) = length (read_lines example_config) \<and>
      read_lines out ! 1 = str ''rust = \"1.75\"'' @ [LF])"
proof -
  have a: "config_toml example_state = Some example_config"
    by (simp add: example_state_def)
  have b: "1 < length (read_lines example_config)"
    by (simp add: example_config_lines)
  have d: "read_lines example_config ! 1 = [9] @ str ''rust = \"1.70\"''"
    by (simp add: example_config_lines)
  have c: "startswith (strip (read_lines example_config ! 1)) (str ''rust ='')"
    unfolding d by (simp add: eval_match)
  from config_rust_line [OF a b c] a b c d show ?thesis by blast
qed

text \<open>
  Claim C3. With the version token \<open>1.75\<close>, every line of the Dockerfile whose stripped
  content starts with \<open>FROM rust:\<close> is, in the patched file, exactly
  \<open>FROM rust:1.75 as build\<close> followed by a line feed, and every line whose stripped
  content starts with \<open>RUN cargo install --path\<close> is exactly
  \<open>RUN cargo install --path custom-plugin/router-with-plugin\<close> followed by a line
  feed, whatever path the line named before.
\<close>

theorem dockerfile_lines:
  assumes "dockerfile st = Some content"
    and "i < length (read_lines content)"
  shows "\<exists>st' out. patch_dockerfile (str ''1.75'') st = Inr st' \<and>
           dockerfile st' = Some out \<and>
           length (read_lines out) = length (read_lines content) \<and>
           (startswith (strip (read_lines content ! i)) (str ''FROM rust:'') \<longrightarrow>
              read_lines out ! i = str ''FROM rust:1.75 as build'' @ [LF]) \<and>
           (startswith (strip (read_lines content ! i)) (str ''RUN cargo install --path'') \<longrightarrow>
              read_lines out ! i =
                str ''RUN cargo install --path custom-plugin/router-with-plugin'' @ [LF])"
proof -
  let ?out = "patch_text (dockerfile_line (str ''1.75'')) content"
  let ?l = "read_lines content ! i"
  have r: "read_lines ?out = map (dockerfile_line (str ''1.75'')) (read_lines content)"
    unfolding patch_text_def by (rule reread) (rule dockerfile_line_cases [OF version_1_75])
  have from_line: "dockerfile_line (str ''1.75'') ?l = str ''FROM rust:1.75 as build'' @ [LF]"
    if "startswith (strip ?l) (str ''FROM rust:'')"
    using that by (simp add: dockerfile_line_def str_def)
  have not_both: "\<not> startswith s (str ''FROM rust:'')"
    if "startswith s (str ''RUN cargo install --path'')" for s
    using that by (auto simp: startswith_def str_def prefix_def)
  have run_line: "dockerfile_line (str ''1.75'') ?l =
      str ''RUN cargo install --path custom-plugin/router-with-plugin'' @ [LF]"
    if "startswith (strip ?l) (str ''RUN cargo install --path'')"
    using that not_both [OF that] by (simp add: dockerfile_line_def)
  from r assms(2) have "length (read_lines ?out) = length (read_lines content)"
    and "read_lines ?out ! i = dockerfile_line (str ''1.75'') ?l"
    by simp_all
  then show ?thesis
    using assms(1) from_line run_line by (simp add: patch_dockerfile_def)
qed

lemma example_dockerfile_lines:
  "read_lines example_dockerfile =
     [str ''FROM rust:1.70 as build'' @ [LF], str ''WORKDIR /usr/src/router'' @ [LF],
      str ''  RUN cargo install --path apollo-router'' @ [LF], str ''FROM debian'' @ [LF]]"
  by (simp add: example_dockerfile_def eval_text)

theorem dockerfile_lines_witness:
  "dockerfile example_state = Some example_dockerfile \<and>
   2 < length (read_lines example_dockerfile) \<and>
   startswith (strip (read_lines example_dockerfile ! 0)) (str ''FROM rust:'') \<and>
   startswith (strip (read_lines example_dockerfile ! 2)) (str ''RUN cargo install --path'') \<and>
   (\<exists>st' out. patch_dockerfile (str ''1.75'') example_state = Inr st' \<and>
      dockerfile st' = Some out \<and>
      read_lines out ! 0 = str ''FROM rust:1.75 as build'' @ [LF] \<and>
      read_lines out ! 2 =
        str ''RUN cargo install --path custom-plugin/router-with-plugin'' @ [LF])"
proof -
  have a: "dockerfile example_state = Some example_dockerfile"
    by (simp add: example_state_def)
  have b: "2 < length (read_lines example_dockerfile)"
    and b0: "0 < length (read_lines example_dockerfile)"
    by (simp_all add: example_dockerfile_lines)
  have c: "startswith (strip (read_lines example_dockerfile ! 0)) (str ''FROM rust:'')"
    by (simp add: example_dockerfile_lines eval_match)
  have d: "startswith (strip (read_lines example_dockerfile ! 2))
             (str ''RUN cargo install --path'')"
    by (simp add: example_dockerfile_lines eval_match)
  from dockerfile_lines [OF a b0] dockerfile_lines [OF a b] a b c d
  show ?thesis by auto
qed

section \<open>The workspace members\<close>

lemma count_list_distinct:
  "distinct xs \<Longrightarrow> x \<in> set xs \<Longrightarrow> count_list xs x = 1"
  by (induction xs) auto

lemma the_str_image: "the_str ` TStr ` A = A"
  by (auto simp: the_str_def image_iff)

lemma members_strs:
  assumes "map_of cargo_data (str ''workspace'') = Some (TTab ws)"
    and "dict_get ws (str ''members'') (TArr []) = TArr (map TStr ms)"
  shows "members cargo_data =
           Inr (TStr ` insert router_path (insert plugin_path (set ms)))"
proof -
  have "list_all hashable (map TStr ms)"
    by (simp add: list_all_iff hashable_def)
  then have "py_set (TArr (map TStr ms)) = Inr (TStr ` set ms)"
    by (simp add: py_set_def py_iter_def and_then_def)
  with assms show ?thesis
    by (simp add: members_def dict_get_def get_method_def and_then_def)
qed

lemma sorted_members_strs:
  "sorted_members (TStr ` A) = Inr (map TStr (sorted_list_of_set A))"
  by (auto simp: sorted_members_def is_str_def the_str_image)

lemma patched_manifest_strs:
  assumes "map_of cargo_data (str ''workspace'') = Some (TTab ws)"
    and "dict_get ws (str ''members'') (TArr []) = TArr (map TStr ms)"
  shows "patched_manifest cargo_data =
           Inr (AList.update (str ''workspace'')
                  (TTab (AList.update (str ''members'')
                     (TArr (map TStr (sorted_list_of_set
                        (insert router_path (insert plugin_path (set ms)))))) ws))
                  cargo_data)"
proof -
  have "sorted_members (TStr ` insert router_path (insert plugin_path (set ms))) =
      Inr (map TStr (sorted_list_of_set (insert router_path (insert plugin_path (set ms)))))"
    by (rule sorted_members_strs)
  with assms(1) members_strs [OF assms] show ?thesis
    by (simp only: patched_manifest_def and_then_def set_workspace_members_def
        sum.case option.case toml.case)
qed

lemma update_cargo_toml_run:
  assumes "cargo_toml st = Manifest cargo_data"
    and "patched_manifest cargo_data = Inr cargo_data'"
  shows "update_cargo_toml toml_dump st =
           Inr (st\<lparr>cargo_toml := toml_dump cargo_data',
                  stdout := stdout st @
                    [check_mark @ str '' Added custom-plugin and router-with-plugin to workspace members'']\<rparr>)"
  using assms by (simp add: update_cargo_toml_def toml_load_def and_then_def)

lemma sorted_list_of_finite:
  "finite A \<Longrightarrow>
     sorted (sorted_list_of_set A) \<and> distinct (sorted_list_of_set A) \<and>
     set (sorted_list_of_set A) = A"
  by simp

lemma members_entry_update:
  "members_entry
     (AList.update (str ''workspace'') (TTab (AList.update (str ''members'') v ws)) cargo_data) =
     Some v"
  by (simp add: members_entry_def update_conv')

text \<open>
  Claim C1. Whatever list of strings \<open>toml.load\<close> finds as the members entry of the
  manifest, the patch succeeds, and the members entry of the dict that it hands to
  \<open>toml.dump\<close> (the sequence line 16 builds) is sorted and free of duplicates, holds
  \<open>custom-plugin\<close> and \<open>custom-plugin/router-with-plugin\<close> exactly once each, and
  holds every member that was there before (and nothing else).
\<close>

theorem members_after_patch:
  assumes "workspace_members st = Some (TArr (map TStr ms))"
  shows "\<exists>cargo_data' out.
           update_cargo_toml toml_dump st =
             Inr (st\<lparr>cargo_toml := toml_dump cargo_data',
                    stdout := stdout st @
                      [check_mark @ str '' Added custom-plugin and router-with-plugin to workspace members'']\<rparr>) \<and>
           members_entry cargo_data' = Some (TArr (map TStr out)) \<and>
           sorted out \<and> distinct out \<and>
           count_list out (str ''custom-plugin'') = 1 \<and>
           count_list out (str ''custom-plugin/router-with-plugin'') = 1 \<and>
           set ms \<subseteq> set out \<and>
           set out = set ms \<union> {str ''custom-plugin'', str ''custom-plugin/router-with-plugin''}"
proof -
  from assms obtain cargo_data ws where m: "cargo_toml st = Manifest cargo_data"
    and w: "map_of cargo_data (str ''workspace'') = Some (TTab ws)"
    and ms: "map_of ws (str ''members'') = Some (TArr (map TStr ms))"
    by (auto simp: workspace_members_def members_entry_def
        split: cargo_file.splits option.splits toml.splits)
  let ?out = "sorted_list_of_set (insert router_path (insert plugin_path (set ms)))"
  let ?d = "AList.update (str ''workspace'')
      (TTab (AList.update (str ''members'') (TArr (map TStr ?out)) ws)) cargo_data"
  from ms have "dict_get ws (str ''members'') (TArr []) = TArr (map TStr ms)"
    by (simp add: dict_get_def)
  from patched_manifest_strs [OF w this] have "patched_manifest cargo_data = Inr ?d" .
  note run = update_cargo_toml_run [OF m this, of toml_dump]
  have entry: "members_entry ?d = Some (TArr (map TStr ?out))"
    by (rule members_entry_update)
  have "finite (insert router_path (insert plugin_path (set ms)))" by simp
  from sorted_list_of_finite [OF this]
  have "sorted ?out" and "distinct ?out"
    and s: "set ?out = set ms \<union> {plugin_path, router_path}"
    by blast+
  moreover from s \<open>distinct ?out\<close>
  have "count_list ?out plugin_path = 1" and "count_list ?out router_path = 1"
    by (simp_all add: count_list_distinct)
  moreover from s have "set ms \<subseteq> set ?out" by blast
  ultimately show ?thesis
    using run entry by blast
qed

lemma example_members:
  "workspace_members example_state =
     Some (TArr (map TStr [str ''xtask'', str ''apollo-router'', str ''xtask'']))"
  by (simp add: workspace_members_def members_entry_def example_state_def example_manifest_def)

theorem members_after_patch_witness:
  "\<forall>toml_dump.
     workspace_members example_state =
       Some (TArr (map TStr [str ''xtask'', str ''apollo-router'', str ''xtask''])) \<and>
     (\<exists>cargo_data' out.
        update_cargo_toml toml_dump example_state =
          Inr (example_state\<lparr>cargo_toml := toml_dump cargo_data',
                 stdout := stdout example_state @
                   [check_mark @ str '' Added custom-plugin and router-with-plugin to workspace members'']\<rparr>) \<and>
        members_entry cargo_data' = Some (TArr (map TStr out)) \<and>
        sorted out \<and> distinct out \<and>
        count_list out (str ''custom-plugin'') = 1 \<and>
        count_list out (str ''custom-plugin/router-with-plugin'') = 1 \<and>
        set out = {str ''xtask'', str ''apollo-router'', str ''custom-plugin'',
                   str ''custom-plugin/router-with-plugin''})"
proof
  fix toml_dump
  from members_after_patch [OF example_members, of toml_dump] example_members
  show "workspace_members example_state =
       Some (TArr (map TStr [str ''xtask'', str ''apollo-router'', str ''xtask''])) \<and>
     (\<exists>cargo_data' out.
        update_cargo_toml toml_dump example_state =
          Inr (example_state\<lparr>cargo_toml := toml_dump cargo_data',
                 stdout := stdout example_state @
                   [check_mark @ str '' Added custom-plugin and router-with-plugin to workspace members'']\<rparr>) \<and>
        members_entry cargo_data' = Some (TArr (map TStr out)) \<and>
        sorted out \<and> distinct out \<and>
        count_list out (str ''custom-plugin'') = 1 \<and>
        count_list out (str ''custom-plugin/router-with-plugin'') = 1 \<and>
        set out = {str ''xtask'', str ''apollo-router'', str ''custom-plugin'',
                   str ''custom-plugin/router-with-plugin''})"
    by auto
qed

lemma example_run:
  "\<exists>st1. update_cargo_toml toml_dump example_state = Inr st1"
proof -
  have "cargo_toml example_state = Manifest example_manifest"
    by (simp add: example_state_def)
  moreover have "map_of example_manifest (str ''workspace'') =
      Some (TTab [(str ''members'',
              TArr [TStr (str ''xtask''), TStr (str ''apollo-router''), TStr (str ''xtask'')])])"
    by (simp add: example_manifest_def)
  moreover have "dict_get [(str ''members'',
              TArr [TStr (str ''xtask''), TStr (str ''apollo-router''), TStr (str ''xtask'')])]
            (str ''members'') (TArr []) =
          TArr (map TStr [str ''xtask'', str ''apollo-router'', str ''xtask''])"
    by (simp add: dict_get_def)
  ultimately show ?thesis
    by (blast dest: patched_manifest_strs update_cargo_toml_run)
qed

text \<open>
  Claim C4 at a manifest without a workspace table: the members are read as empty through
  the two defaults of line 13, the two paths are added, and the subscript
  \<open>cargo_data["workspace"]\<close> of line 16 raises KeyError; the whole run ends there.
\<close>

theorem no_workspace_table_KeyError:
  "update_cargo_toml toml_dump package_only_state = Inl KeyError \<and>
   prepare_plugin_build toml_dump environ package_only_state = Inl KeyError"
proof -
  have "members [(str ''package'', TTab [(str ''name'', TStr (str ''router''))])] =
      Inr {TStr router_path, TStr plugin_path}"
    by (simp add: members_def dict_get_def get_method_def py_set_def py_iter_def and_then_def
        str_def)
  moreover have "sorted_members {TStr router_path, TStr plugin_path} =
      Inr (map TStr (sorted_list_of_set {router_path, plugin_path}))"
    using sorted_members_strs [of "{router_path, plugin_path}"] by simp
  moreover have "set_workspace_members
      [(str ''package'', TTab [(str ''name'', TStr (str ''router''))])] v = Inl KeyError" for v
    by (simp add: set_workspace_members_def str_def)
  ultimately have "update_cargo_toml toml_dump package_only_state = Inl KeyError"
    by (simp only: update_cargo_toml_def patched_manifest_def toml_load_def
        package_only_state_def and_then_def state.simps cargo_file.case sum.case)
  then show ?thesis
    by (simp add: prepare_plugin_build_def and_then_def)
qed

text \<open>
  With a workspace table that has no members entry the patch succeeds and hands to
  \<open>toml.dump\<close> a dict whose members entry is exactly the two paths, in this order.
\<close>

lemma members_entry_absent:
  assumes "cargo_toml st = Manifest cargo_data"
    and "map_of cargo_data (str ''workspace'') = Some (TTab ws)"
    and "map_of ws (str ''members'') = None"
  shows "\<exists>cargo_data'.
           update_cargo_toml toml_dump st =
             Inr (st\<lparr>cargo_toml := toml_dump cargo_data',
                    stdout := stdout st @
                      [check_mark @ str '' Added custom-plugin and router-with-plugin to workspace members'']\<rparr>) \<and>
           members_entry cargo_data' =
             Some (TArr [TStr (str ''custom-plugin''),
                         TStr (str ''custom-plugin/router-with-plugin'')])"
proof -
  from assms(3) have "dict_get ws (str ''members'') (TArr []) = TArr (map TStr [])"
    by (simp add: dict_get_def)
  from patched_manifest_strs [OF assms(2) this]
  have p: "patched_manifest cargo_data =
      Inr (AList.update (str ''workspace'')
             (TTab (AList.update (str ''members'')
                (TArr (map TStr (sorted_list_of_set
                   (insert router_path (insert plugin_path (set []))))))
                ws)) cargo_data)" .
  have e: "sorted_list_of_set (insert router_path (insert plugin_path (set []))) =
      [plugin_path, router_path]"
    by code_simp
  have "members_entry (AList.update (str ''workspace'')
             (TTab (AList.update (str ''members'')
                (TArr (map TStr [plugin_path, router_path])) ws)) cargo_data) =
      Some (TArr (map TStr [plugin_path, router_path]))"
    by (rule members_entry_update)
  with update_cargo_toml_run [OF assms(1) p [unfolded e], of toml_dump] show ?thesis
    by auto
qed

lemma members_entry_absent_witness:
  "\<forall>toml_dump. \<exists>cargo_data'.
     update_cargo_toml toml_dump bare_workspace_state =
       Inr (bare_workspace_state\<lparr>cargo_toml := toml_dump cargo_data',
              stdout := stdout bare_workspace_state @
                [check_mark @ str '' Added custom-plugin and router-with-plugin to workspace members'']\<rparr>) \<and>
     members_entry cargo_data' =
       Some (TArr [TStr (str ''custom-plugin''),
                   TStr (str ''custom-plugin/router-with-plugin'')])"
proof (rule allI, rule members_entry_absent)
  show "cargo_toml bare_workspace_state =
      Manifest [(str ''workspace'', TTab [(str ''resolver'', TStr (str ''2''))])]"
    by (simp add: bare_workspace_state_def)
  show "map_of [(str ''workspace'', TTab [(str ''resolver'', TStr (str ''2''))])]
      (str ''workspace'') = Some (TTab [(str ''resolver'', TStr (str ''2''))])"
    by simp
  show "map_of [(str ''resolver'', TStr (str ''2''))] (str ''members'') = None"
    by (simp add: str_def)
qed

lemma patched_manifest_Inr:
  assumes "patched_manifest cargo_data = Inr cargo_data'"
  shows "\<exists>ws A. map_of cargo_data (str ''workspace'') = Some (TTab ws) \<and>
           finite A \<and> plugin_path \<in> A \<and> router_path \<in> A \<and>
           cargo_data' =
             AList.update (str ''workspace'')
               (TTab (AList.update (str ''members'')
                  (TArr (map TStr (sorted_list_of_set A))) ws))
               cargo_data"
proof -
  from assms obtain S where S: "members cargo_data = Inr S"
    by (cases "members cargo_data") (simp_all add: patched_manifest_def and_then_def)
  from assms S obtain l where l: "sorted_members S = Inr l"
    by (cases "sorted_members S") (simp_all add: patched_manifest_def and_then_def)
  from assms S l have cd': "set_workspace_members cargo_data (TArr l) = Inr cargo_data'"
    by (simp add: patched_manifest_def and_then_def)
  from cd' obtain ws where w: "map_of cargo_data (str ''workspace'') = Some (TTab ws)"
    and cd'_eq: "cargo_data' = AList.update (str ''workspace'')
                   (TTab (AList.update (str ''members'') (TArr l) ws)) cargo_data"
    by (auto simp: set_workspace_members_def split: option.splits toml.splits)
  from S obtain xs where S_eq: "S = insert (TStr router_path) (insert (TStr plugin_path) (set xs))"
    by (auto simp: members_def py_set_def and_then_def split: sum.splits if_splits)
  define A where "A = the_str ` S"
  from l have "l = map TStr (sorted_list_of_set A)"
    by (simp add: sorted_members_def A_def split: if_splits)
  moreover from S_eq have "finite A" "plugin_path \<in> A" "router_path \<in> A"
    by (auto simp: A_def the_str_def image_iff)
  ultimately show ?thesis
    using w cd'_eq by blast
qed

lemma sorted_list_of_set_again:
  assumes "finite A" and "p \<in> A" and "r \<in> A"
  shows "sorted_list_of_set (insert r (insert p (set (sorted_list_of_set A)))) =
           sorted_list_of_set A"
proof -
  from assms have "insert r (insert p (set (sorted_list_of_set A))) = A"
    by auto
  then show ?thesis by (rule arg_cong)
qed

lemma patched_manifest_fixed:
  assumes "patched_manifest cargo_data = Inr cargo_data'"
  shows "patched_manifest cargo_data' = Inr cargo_data'"
proof -
  from patched_manifest_Inr [OF assms]
  obtain ws A where w: "map_of cargo_data (str ''workspace'') = Some (TTab ws)"
    and A: "finite A" "plugin_path \<in> A" "router_path \<in> A"
    and d: "cargo_data' =
             AList.update (str ''workspace'')
               (TTab (AList.update (str ''members'')
                  (TArr (map TStr (sorted_list_of_set A))) ws))
               cargo_data"
    by blast
  define out where "out = sorted_list_of_set A"
  define ws1 where "ws1 = AList.update (str ''members'') (TArr (map TStr out)) ws"
  have d1: "cargo_data' = AList.update (str ''workspace'') (TTab ws1) cargo_data"
    by (simp add: d ws1_def out_def)
  have w1: "map_of cargo_data' (str ''workspace'') = Some (TTab ws1)"
    by (simp add: d1 update_conv')
  have g1: "dict_get ws1 (str ''members'') (TArr []) = TArr (map TStr out)"
    by (simp add: ws1_def dict_get_def update_conv')
  have again: "sorted_list_of_set (insert router_path (insert plugin_path (set out))) = out"
    unfolding out_def using A by (rule sorted_list_of_set_again)
  have same: "AList.update (str ''workspace'')
       (TTab (AList.update (str ''members'') (TArr (map TStr out)) ws1)) cargo_data' =
       cargo_data'"
    by (simp add: d1 ws1_def)
  from patched_manifest_strs [OF w1 g1, unfolded again same] show ?thesis .
qed

text \<open>
  Lines 13 to 16 are idempotent on dicts: applied to the dict they have made, they make
  the same dict again. A second run of the script starts from what \<open>toml.load\<close>
  makes of the file that \<open>toml.dump\<close> wrote, which need not be that dict.
\<close>

lemma patched_manifest_twice:
  "patched_manifest cargo_data = Inr cargo_data' \<Longrightarrow>
     patched_manifest cargo_data' = Inr cargo_data'"
  by (rule patched_manifest_fixed)

lemma patched_manifest_twice_witness:
  "patched_manifest example_manifest = Inr
     [(str ''workspace'',
       TTab [(str ''members'',
              TArr [TStr (str ''apollo-router''), TStr (str ''custom-plugin''),
                    TStr (str ''custom-plugin/router-with-plugin''), TStr (str ''xtask'')])])] \<and>
   patched_manifest
     [(str ''workspace'',
       TTab [(str ''members'',
              TArr [TStr (str ''apollo-router''), TStr (str ''custom-plugin''),
                    TStr (str ''custom-plugin/router-with-plugin''), TStr (str ''xtask'')])])] =
   Inr
     [(str ''workspace'',
       TTab [(str ''members'',
              TArr [TStr (str ''apollo-router''), TStr (str ''custom-plugin''),
                    TStr (str ''custom-plugin/router-with-plugin''), TStr (str ''xtask'')])])]"
proof -
  have "map_of example_manifest (str ''workspace'') =
      Some (TTab [(str ''members'',
              TArr [TStr (str ''xtask''), TStr (str ''apollo-router''), TStr (str ''xtask'')])])"
    by (simp add: example_manifest_def)
  moreover have "dict_get [(str ''members'',
              TArr [TStr (str ''xtask''), TStr (str ''apollo-router''), TStr (str ''xtask'')])]
            (str ''members'') (TArr []) =
          TArr (map TStr [str ''xtask'', str ''apollo-router'', str ''xtask''])"
    by (simp add: dict_get_def)
  ultimately have "patched_manifest example_manifest =
      Inr (AList.update (str ''workspace'')
             (TTab (AList.update (str ''members'')
                (TArr (map TStr (sorted_list_of_set
                   (insert router_path (insert plugin_path
                      (set [str ''xtask'', str ''apollo-router'', str ''xtask'']))))))
                [(str ''members'',
                  TArr [TStr (str ''xtask''), TStr (str ''apollo-router''),
                        TStr (str ''xtask'')])]))
             example_manifest)"
    by (rule patched_manifest_strs)
  moreover have "sorted_list_of_set (insert router_path (insert plugin_path
        (set [str ''xtask'', str ''apollo-router'', str ''xtask'']))) =
      [str ''apollo-router'', plugin_path, router_path, str ''xtask'']"
    by code_simp
  ultimately have 1: "patched_manifest example_manifest = Inr
     [(str ''workspace'',
       TTab [(str ''members'',
              TArr [TStr (str ''apollo-router''), TStr (str ''custom-plugin''),
                    TStr (str ''custom-plugin/router-with-plugin''), TStr (str ''xtask'')])])]"
    by (simp add: example_manifest_def)
  from patched_manifest_twice [OF 1] 1 show ?thesis by simp
qed


section \<open>Absent files and the version token\<close>

text \<open>
  Claim C8. When the toolchain file, the config file or the Dockerfile is absent, the step
  for that file ends without an exception and returns the state it was given: no file is
  written and nothing is printed. When all three are absent, the whole run does what the
  patch of the manifest does and nothing more.
\<close>

theorem absent_file_no_action:
  "(rust_toolchain st = None \<longrightarrow> patch_rust_toolchain version st = Inr st) \<and>
   (config_toml st = None \<longrightarrow> patch_config_toml version st = Inr st) \<and>
   (dockerfile st = None \<longrightarrow> patch_dockerfile version st = Inr st) \<and>
   (rust_toolchain st = None \<and> config_toml st = None \<and> dockerfile st = None \<longrightarrow>
      prepare_plugin_build toml_dump environ st = update_cargo_toml toml_dump st)"
proof -
  have keep: "rust_toolchain st' = rust_toolchain st \<and> config_toml st' = config_toml st \<and>
      dockerfile st' = dockerfile st" if "update_cargo_toml toml_dump st = Inr st'" for st'
    using that
    by (auto simp: update_cargo_toml_def and_then_def split: sum.splits)
  have "prepare_plugin_build toml_dump environ st = update_cargo_toml toml_dump st"
    if "rust_toolchain st = None" "config_toml st = None" "dockerfile st = None"
  proof (cases "update_cargo_toml toml_dump st")
    case (Inl e)
    then show ?thesis by (simp add: prepare_plugin_build_def and_then_def)
  next
    case (Inr st')
    with keep [OF Inr] that show ?thesis
      by (simp add: prepare_plugin_build_def and_then_def patch_rust_toolchain_def
          patch_config_toml_def patch_dockerfile_def)
  qed
  then show ?thesis
    by (simp add: patch_rust_toolchain_def patch_config_toml_def patch_dockerfile_def)
qed

theorem absent_file_no_action_witness:
  "\<forall>toml_dump.
     rust_toolchain bare_workspace_state = None \<and>
     config_toml bare_workspace_state = None \<and>
     dockerfile bare_workspace_state = None \<and>
     patch_rust_toolchain (str ''1.75'') bare_workspace_state = Inr bare_workspace_state \<and>
     patch_config_toml (str ''1.75'') bare_workspace_state = Inr bare_workspace_state \<and>
     patch_dockerfile (str ''1.75'') bare_workspace_state = Inr bare_workspace_state \<and>
     prepare_plugin_build toml_dump Map.empty bare_workspace_state =
       update_cargo_toml toml_dump bare_workspace_state"
proof
  fix toml_dump
  have "rust_toolchain bare_workspace_state = None"
    and "config_toml bare_workspace_state = None"
    and "dockerfile bare_workspace_state = None"
    by (simp_all add: bare_workspace_state_def)
  with absent_file_no_action [of bare_workspace_state "str ''1.75''" toml_dump Map.empty]
  show "rust_toolchain bare_workspace_state = None \<and>
     config_toml bare_workspace_state = None \<and>
     dockerfile bare_workspace_state = None \<and>
     patch_rust_toolchain (str ''1.75'') bare_workspace_state = Inr bare_workspace_state \<and>
     patch_config_toml (str ''1.75'') bare_workspace_state = Inr bare_workspace_state \<and>
     patch_dockerfile (str ''1.75'') bare_workspace_state = Inr bare_workspace_state \<and>
     prepare_plugin_build toml_dump Map.empty bare_workspace_state =
       update_cargo_toml toml_dump bare_workspace_state"
    by simp
qed

lemma update_cargo_toml_files:
  assumes "update_cargo_toml toml_dump st = Inr st'"
  shows "rust_toolchain st' = rust_toolchain st" "config_toml st' = config_toml st"
    "dockerfile st' = dockerfile st"
  using assms by (auto simp: update_cargo_toml_def and_then_def split: sum.splits)

text \<open>
  Claim C9. The version token is the value of the environment variable \<open>RUST_VERSION\<close>
  when it is set and \<open>latest\<close> when it is not; one and the same token stands, unchanged,
  in the replacement lines of the toolchain file, the config file and the Dockerfile that
  a run which ends without exception leaves behind.
\<close>

theorem version_token:
  assumes "prepare_plugin_build toml_dump environ st = Inr st'"
  shows "\<exists>version.
           (case environ (str ''RUST_VERSION'') of
              None \<Rightarrow> version = str ''latest'' | Some v \<Rightarrow> version = v) \<and>
           rust_toolchain st' =
             map_option (patch_text (\<lambda>line.
                 if startswith (strip line) (str ''channel'')
                 then str ''channel = \"'' @ version @ str ''\"'' @ [LF] else line))
               (rust_toolchain st) \<and>
           config_toml st' =
             map_option (patch_text (\<lambda>line.
                 if startswith (strip line) (str ''rust ='')
                 then str ''rust = \"'' @ version @ str ''\"'' @ [LF] else line))
               (config_toml st) \<and>
           dockerfile st' =
             map_option (patch_text (\<lambda>line.
                 if startswith (strip line) (str ''FROM rust:'')
                 then str ''FROM rust:'' @ version @ str '' as build'' @ [LF]
                 else if startswith (strip line) (str ''RUN cargo install --path'')
                 then str ''RUN cargo install --path custom-plugin/router-with-plugin'' @ [LF]
                 else line))
               (dockerfile st)"
proof -
  let ?v = "RUST_VERSION environ"
  from assms obtain st1 where 1: "update_cargo_toml toml_dump st = Inr st1"
    by (cases "update_cargo_toml toml_dump st") (simp_all add: prepare_plugin_build_def and_then_def)
  have tl: "toolchain_line ?v = (\<lambda>line.
                 if startswith (strip line) (str ''channel'')
                 then str ''channel = \"'' @ ?v @ str ''\"'' @ [LF] else line)"
    by (rule ext) (simp add: toolchain_line_def)
  have cl: "config_line ?v = (\<lambda>line.
                 if startswith (strip line) (str ''rust ='')
                 then str ''rust = \"'' @ ?v @ str ''\"'' @ [LF] else line)"
    by (rule ext) (simp add: config_line_def)
  have dl: "dockerfile_line ?v = (\<lambda>line.
                 if startswith (strip line) (str ''FROM rust:'')
                 then str ''FROM rust:'' @ ?v @ str '' as build'' @ [LF]
                 else if startswith (strip line) (str ''RUN cargo install --path'')
                 then str ''RUN cargo install --path custom-plugin/router-with-plugin'' @ [LF]
                 else line)"
    by (rule ext) (simp add: dockerfile_line_def)
  from assms 1 have "rust_toolchain st' = map_option (patch_text (toolchain_line ?v)) (rust_toolchain st1)"
    and "config_toml st' = map_option (patch_text (config_line ?v)) (config_toml st1)"
    and "dockerfile st' = map_option (patch_text (dockerfile_line ?v)) (dockerfile st1)"
    by (auto simp: prepare_plugin_build_def and_then_def patch_rust_toolchain_def
        patch_config_toml_def patch_dockerfile_def split: option.splits)
  then have "rust_toolchain st' = map_option (patch_text (toolchain_line ?v)) (rust_toolchain st)"
    and "config_toml st' = map_option (patch_text (config_line ?v)) (config_toml st)"
    and "dockerfile st' = map_option (patch_text (dockerfile_line ?v)) (dockerfile st)"
    by (simp_all add: update_cargo_toml_files [OF 1])
  moreover have "case environ (str ''RUST_VERSION'') of
              None \<Rightarrow> ?v = str ''latest'' | Some v \<Rightarrow> ?v = v"
    by (simp add: RUST_VERSION_def split: option.splits)
  ultimately show ?thesis
    unfolding tl cl dl by blast
qed

lemma prepare_plugin_build_succeeds:
  assumes "update_cargo_toml toml_dump st = Inr st1"
  shows "\<exists>st'. prepare_plugin_build toml_dump environ st = Inr st'"
  using assms
  by (simp add: prepare_plugin_build_def and_then_def patch_rust_toolchain_def
      patch_config_toml_def patch_dockerfile_def split: option.splits)

lemma example_toolchain_1_75:
  "patch_text (\<lambda>line. if startswith (strip line) (str ''channel'')
       then str ''channel = \"'' @ str ''1.75'' @ str ''\"'' @ [LF] else line) example_toolchain =
     str ''[toolchain]'' @ [LF] @ str ''channel = \"1.75\"'' @ [LF] @ str ''profile = \"default\"''"
  by (simp add: patch_text_def writelines_def example_toolchain_lines eval_match)

lemma example_toolchain_latest:
  "patch_text (\<lambda>line. if startswith (strip line) (str ''channel'')
       then str ''channel = \"'' @ str ''latest'' @ str ''\"'' @ [LF] else line) example_toolchain =
     str ''[toolchain]'' @ [LF] @ str ''channel = \"latest\"'' @ [LF] @ str ''profile = \"default\"''"
  by (simp add: patch_text_def writelines_def example_toolchain_lines eval_match)

theorem version_token_witness:
  "\<forall>toml_dump.
     (\<exists>st'. prepare_plugin_build toml_dump [str ''RUST_VERSION'' \<mapsto> str ''1.75'']
          example_state = Inr st' \<and>
        rust_toolchain st' =
          Some (str ''[toolchain]'' @ [LF] @ str ''channel = \"1.75\"'' @ [LF] @
                str ''profile = \"default\"'')) \<and>
     (\<exists>st'. prepare_plugin_build toml_dump Map.empty example_state = Inr st' \<and>
        rust_toolchain st' =
          Some (str ''[toolchain]'' @ [LF] @ str ''channel = \"latest\"'' @ [LF] @
                str ''profile = \"default\"''))"
proof
  fix toml_dump
  from example_run obtain st1 where 1: "update_cargo_toml toml_dump example_state = Inr st1" ..
  have f: "rust_toolchain example_state = Some example_toolchain"
    by (simp add: example_state_def)
  from prepare_plugin_build_succeeds [OF 1]
  obtain a where a: "prepare_plugin_build toml_dump [str ''RUST_VERSION'' \<mapsto> str ''1.75'']
      example_state = Inr a"
    by blast
  from prepare_plugin_build_succeeds [OF 1]
  obtain b where b: "prepare_plugin_build toml_dump Map.empty example_state = Inr b"
    by blast
  from version_token [OF a] have "rust_toolchain a =
      Some (str ''[toolchain]'' @ [LF] @ str ''channel = \"1.75\"'' @ [LF] @
            str ''profile = \"default\"'')"
    by (auto simp: f example_toolchain_1_75)
  moreover from version_token [OF b] have "rust_toolchain b =
      Some (str ''[toolchain]'' @ [LF] @ str ''channel = \"latest\"'' @ [LF] @
            str ''profile = \"default\"'')"
    by (auto simp: f example_toolchain_latest)
  ultimately show "(\<exists>st'. prepare_plugin_build toml_dump [str ''RUST_VERSION'' \<mapsto> str ''1.75'']
          example_state = Inr st' \<and>
        rust_toolchain st' =
          Some (str ''[toolchain]'' @ [LF] @ str ''channel = \"1.75\"'' @ [LF] @
                str ''profile = \"default\"'')) \<and>
     (\<exists>st'. prepare_plugin_build toml_dump Map.empty example_state = Inr st' \<and>
        rust_toolchain st' =
          Some (str ''[toolchain]'' @ [LF] @ str ''channel = \"latest\"'' @ [LF] @
                str ''profile = \"default\"''))"
    using a b by blast
qed

section \<open>The shape of the replacement lines\<close>
















section \<open>Lines that do not match\<close>

text \<open>
  Claim C2 fails as stated. The toolchain file that consists of the single line
  \<open>[toolchain]\<close> terminated by \<open>\r\n\<close> has no matching line; the line is read as
  \<open>[toolchain]\<close> with a line feed and written back so, and the file is no longer what it
  was.
\<close>

theorem crlf_line_not_identical:
  "read_lines (str ''[toolchain]'' @ [CR, LF]) = [str ''[toolchain]'' @ [LF]] \<and>
   \<not> startswith (strip (str ''[toolchain]'' @ [CR, LF])) (str ''channel'') \<and>
   \<not> startswith (strip (str ''[toolchain]'' @ [LF])) (str ''channel'') \<and>
   patch_text (toolchain_line (str ''1.75'')) (str ''[toolchain]'' @ [CR, LF]) =
     str ''[toolchain]'' @ [LF] \<and>
   patch_text (toolchain_line (str ''1.75'')) (str ''[toolchain]'' @ [CR, LF]) \<noteq>
     str ''[toolchain]'' @ [CR, LF]"
proof -
  have r: "read_lines (str ''[toolchain]'' @ [CR, LF]) = [str ''[toolchain]'' @ [LF]]"
    by (simp add: eval_text)
  have n: "\<not> startswith (strip (str ''[toolchain]'' @ [LF])) (str ''channel'')"
    by (simp add: eval_match)
  have n': "\<not> startswith (strip (str ''[toolchain]'' @ [CR, LF])) (str ''channel'')"
    by (simp add: eval_match)
  have p: "patch_text (toolchain_line (str ''1.75'')) (str ''[toolchain]'' @ [CR, LF]) =
      str ''[toolchain]'' @ [LF]"
    using n by (simp add: patch_text_def writelines_def r toolchain_line_def)
  have "str ''[toolchain]'' @ [LF] \<noteq> str ''[toolchain]'' @ [CR, LF]"
    by simp
  with r n n' p show ?thesis by simp
qed

text \<open>
  Claim C2, amended. For a version token without line break: with the lines of a file
  taken as the script reads them (universal newlines: the terminators \<open>\r\n\<close> and
  \<open>\r\<close> are read as a line feed), the patched file has as many lines as the original,
  and every line whose stripped content does not match is the same in both. In a file
  without carriage return the lines read are the lines of the file as they are, so there
  the lines that do not match are kept byte for byte.
\<close>

theorem unmatched_lines_kept:
  assumes "LF \<notin> set version" and "CR \<notin> set version"
  shows
    "length (read_lines (patch_text (toolchain_line version) content)) =
       length (read_lines content) \<and>
     (\<forall>i < length (read_lines content).
        \<not> startswith (strip (read_lines content ! i)) (str ''channel'') \<longrightarrow>
        read_lines (patch_text (toolchain_line version) content) ! i = read_lines content ! i) \<and>
     length (read_lines (patch_text (config_line version) content)) =
       length (read_lines content) \<and>
     (\<forall>i < length (read_lines content).
        \<not> startswith (strip (read_lines content ! i)) (str ''rust ='') \<longrightarrow>
        read_lines (patch_text (config_line version) content) ! i = read_lines content ! i) \<and>
     length (read_lines (patch_text (dockerfile_line version) content)) =
       length (read_lines content) \<and>
     (\<forall>i < length (read_lines content).
        \<not> startswith (strip (read_lines content ! i)) (str ''FROM rust:'') \<and>
        \<not> startswith (strip (read_lines content ! i)) (str ''RUN cargo install --path'') \<longrightarrow>
        read_lines (patch_text (dockerfile_line version) content) ! i = read_lines content ! i) \<and>
     (CR \<notin> set content \<longrightarrow>
        read_lines content = file_lines content \<and> concat (read_lines content) = content)"
proof -
  have t: "read_lines (patch_text (toolchain_line version) content) =
      map (toolchain_line version) (read_lines content)"
    by (rule read_lines_patch_text) (rule toolchain_line_cases [OF assms])
  have c: "read_lines (patch_text (config_line version) content) =
      map (config_line version) (read_lines content)"
    by (rule read_lines_patch_text) (rule config_line_cases [OF assms])
  have d: "read_lines (patch_text (dockerfile_line version) content) =
      map (dockerfile_line version) (read_lines content)"
    by (rule read_lines_patch_text) (rule dockerfile_line_cases [OF assms])
  have r: "CR \<notin> set content \<longrightarrow>
      read_lines content = file_lines content \<and> concat (read_lines content) = content"
    by (simp add: read_lines_def universal_newlines_id concat_file_lines)
  have lt: "length (read_lines (patch_text (toolchain_line version) content)) =
      length (read_lines content)"
    and lc: "length (read_lines (patch_text (config_line version) content)) =
      length (read_lines content)"
    and ld: "length (read_lines (patch_text (dockerfile_line version) content)) =
      length (read_lines content)"
    by (simp_all add: t c d)
  have nt: "\<forall>i < length (read_lines content).
        \<not> startswith (strip (read_lines content ! i)) (str ''channel'') \<longrightarrow>
        read_lines (patch_text (toolchain_line version) content) ! i = read_lines content ! i"
    by (simp add: t toolchain_line_def)
  have nc: "\<forall>i < length (read_lines content).
        \<not> startswith (strip (read_lines content ! i)) (str ''rust ='') \<longrightarrow>
        read_lines (patch_text (config_line version) content) ! i = read_lines content ! i"
    by (simp add: c config_line_def)
  have nd: "\<forall>i < length (read_lines content).
        \<not> startswith (strip (read_lines content ! i)) (str ''FROM rust:'') \<and>
        \<not> startswith (strip (read_lines content ! i)) (str ''RUN cargo install --path'') \<longrightarrow>
        read_lines (patch_text (dockerfile_line version) content) ! i = read_lines content ! i"
    by (simp add: d dockerfile_line_def)
  show ?thesis
    by (intro conjI lt nt lc nc ld nd r)
qed

theorem unmatched_lines_kept_witness:
  "LF \<notin> set (str ''1.75'') \<and> CR \<notin> set (str ''1.75'') \<and>
   length (read_lines example_toolchain) = 3 \<and>
   \<not> startswith (strip (read_lines example_toolchain ! 2)) (str ''channel'') \<and>
   length (read_lines (patch_text (toolchain_line (str ''1.75'')) example_toolchain)) = 3 \<and>
   read_lines (patch_text (toolchain_line (str ''1.75'')) example_toolchain) ! 2 =
     read_lines example_toolchain ! 2 \<and>
   length (read_lines example_config) = 2 \<and>
   \<not> startswith (strip (read_lines example_config ! 0)) (str ''rust ='') \<and>
   length (read_lines (patch_text (config_line (str ''1.75'')) example_config)) = 2 \<and>
   read_lines (patch_text (config_line (str ''1.75'')) example_config) ! 0 =
     read_lines example_config ! 0 \<and>
   length (read_lines example_dockerfile) = 4 \<and>
   \<not> startswith (strip (read_lines example_dockerfile ! 3)) (str ''FROM rust:'') \<and>
   \<not> startswith (strip (read_lines example_dockerfile ! 3)) (str ''RUN cargo install --path'') \<and>
   length (read_lines (patch_text (dockerfile_line (str ''1.75'')) example_dockerfile)) = 4 \<and>
   read_lines (patch_text (dockerfile_line (str ''1.75'')) example_dockerfile) ! 3 =
     read_lines example_dockerfile ! 3 \<and>
   CR \<notin> set example_config \<and>
   read_lines example_config = file_lines example_config \<and>
   concat (read_lines example_config) = example_config"
proof -
  have t: "length (read_lines example_toolchain) = 3"
    "\<not> startswith (strip (read_lines example_toolchain ! 2)) (str ''channel'')"
    by (simp_all add: example_toolchain_lines eval_match)
  have c: "length (read_lines example_config) = 2"
    "\<not> startswith (strip (read_lines example_config ! 0)) (str ''rust ='')"
    by (simp_all add: example_config_lines eval_match)
  have d: "length (read_lines example_dockerfile) = 4"
    "\<not> startswith (strip (read_lines example_dockerfile ! 3)) (str ''FROM rust:'')"
    "\<not> startswith (strip (read_lines example_dockerfile ! 3)) (str ''RUN cargo install --path'')"
    by (simp_all add: example_dockerfile_lines eval_match)
  have e: "CR \<notin> set example_config"
    by (simp add: example_config_def str_def)
  note T = unmatched_lines_kept [OF version_1_75, of example_toolchain]
  note C = unmatched_lines_kept [OF version_1_75, of example_config]
  note D = unmatched_lines_kept [OF version_1_75, of example_dockerfile]
  from T t have t': "length (read_lines (patch_text (toolchain_line (str ''1.75'')) example_toolchain)) = 3"
    by simp
  from T have "2 < length (read_lines example_toolchain) \<longrightarrow>
      \<not> startswith (strip (read_lines example_toolchain ! 2)) (str ''channel'') \<longrightarrow>
      read_lines (patch_text (toolchain_line (str ''1.75'')) example_toolchain) ! 2 =
        read_lines example_toolchain ! 2"
    by blast
  with t have t'': "read_lines (patch_text (toolchain_line (str ''1.75'')) example_toolchain) ! 2 =
        read_lines example_toolchain ! 2"
    by simp
  from C c have c': "length (read_lines (patch_text (config_line (str ''1.75'')) example_config)) = 2"
    by simp
  from C have "0 < length (read_lines example_config) \<longrightarrow>
      \<not> startswith (strip (read_lines example_config ! 0)) (str ''rust ='') \<longrightarrow>
      read_lines (patch_text (config_line (str ''1.75'')) example_config) ! 0 =
        read_lines example_config ! 0"
    by blast
  with c have c'': "read_lines (patch_text (config_line (str ''1.75'')) example_config) ! 0 =
        read_lines example_config ! 0"
    by simp
  from C e have e': "read_lines example_config = file_lines example_config"
    "concat (read_lines example_config) = example_config"
    by blast+
  from D d have d': "length (read_lines (patch_text (dockerfile_line (str ''1.75'')) example_dockerfile)) = 4"
    by simp
  from D have "3 < length (read_lines example_dockerfile) \<longrightarrow>
      \<not> startswith (strip (read_lines example_dockerfile ! 3)) (str ''FROM rust:'') \<and>
      \<not> startswith (strip (read_lines example_dockerfile ! 3)) (str ''RUN cargo install --path'') \<longrightarrow>
      read_lines (patch_text (dockerfile_line (str ''1.75'')) example_dockerfile) ! 3 =
        read_lines example_dockerfile ! 3"
    by blast
  with d have d'': "read_lines (patch_text (dockerfile_line (str ''1.75'')) example_dockerfile) ! 3 =
        read_lines example_dockerfile ! 3"
    by simp
  show ?thesis
    by (intro conjI version_1_75 t t' t'' c c' c'' d d' d'' e e')
qed

end
